theory Spec2Isabelle
  imports Complex_Main
begin

section \<open>Errors, events and the world\<close>

text \<open>
  A JavaScript error object as the code reads it: \<open>error.code\<close> (absent on a plain
  \<open>Error\<close>), \<open>error.message\<close> and \<open>error.stack\<close>.
\<close>

record error =
  code :: "string option"
  message :: string
  stack :: "string option"

text \<open>
  Values that appear in the metadata of a log record and in the data of an event;
  \<open>JNull\<close> stands for both \<open>null\<close> and \<open>undefined\<close>.
\<close>

datatype jv =
    JStr string
  | JNum real
  | JNull
  | JObj "(string \<times> jv) list"
  | JArr "jv list"

datatype level = Info | Warn | Err

text \<open>An element of the parameter array given to \<open>dbBreaker.fire\<close>.\<close>

datatype param = PStr string | PUndefined

text \<open>The CloudEvents v1.0 envelope of \<open>todoEvents.ts\<close>.\<close>

record CloudEvent =
  ce_id :: string
  ce_source :: string
  ce_specversion :: string
  ce_type :: string
  ce_datacontenttype :: string
  ce_time :: string
  ce_subject :: "string option"
  ce_data :: "(string \<times> jv) list"

text \<open>
  What a call does to its surroundings, in the order it happens: a statement handed to
  \<open>dbBreaker.fire\<close>, a suspension asked of \<open>setTimeout\<close> (the delay it is given, in
  milliseconds), a log record, an event handed to \<open>eventBus.publish\<close>.
\<close>

datatype event =
    Fire string "param list"
  | Sleep real
  | Log level string "(string \<times> jv) list"
  | Publish CloudEvent

text \<open>
  The world a call runs in: \<open>dep\<close> is the state of whatever the wrapped operation
  talks to, \<open>trace\<close> the events so far, oldest first. Values read from the
  surroundings (\<open>Math.random()\<close>, the clock, \<open>uuidv4()\<close>) are functions of the logical
  time of the reading, which is the number of events so far.
\<close>

record 'd world =
  dep :: 'd
  trace :: "event list"

definition emit :: "event \<Rightarrow> 'd world \<Rightarrow> 'd world" where
  "emit e w = w\<lparr>trace := trace w @ [e]\<rparr>"

definition ticks :: "'d world \<Rightarrow> nat" where
  "ticks w = length (trace w)"

text \<open>The events of a call that started in \<open>w\<close> and ended in \<open>w'\<close>.\<close>

definition emitted :: "'d world \<Rightarrow> 'd world \<Rightarrow> event list" where
  "emitted w w' = drop (length (trace w)) (trace w')"

fun delays :: "event list \<Rightarrow> real list" where
  "delays [] = []"
| "delays (Sleep d # es) = d # delays es"
| "delays (_ # es) = delays es"

fun fired :: "event list \<Rightarrow> (string \<times> param list) list" where
  "fired [] = []"
| "fired (Fire q ps # es) = (q, ps) # fired es"
| "fired (_ # es) = fired es"

fun published :: "event list \<Rightarrow> CloudEvent list" where
  "published [] = []"
| "published (Publish ev # es) = ev # published es"
| "published (_ # es) = published es"



section \<open>JavaScript numbers\<close>

text \<open>
  A JavaScript number is an IEEE 754 double, and an arithmetic operation yields the exact
  result rounded to the nearest double, ties to the even one. \<open>fl\<close> is that rounding:
  \<open>binade x\<close> is the exponent \<open>e\<close> with \<open>2^e \<le> |x| < 2^(e+1)\<close>, \<open>ulp x\<close> the distance
  \<open>2^(e-52)\<close> between the doubles of that binade, and \<open>fl x\<close> the multiple of \<open>ulp x\<close>
  nearest to \<open>x\<close>. \<open>fl\<close> has no largest exponent: from \<open>2^1024\<close> on JavaScript yields
  \<open>Infinity\<close> where \<open>fl\<close> goes on rounding, and the properties below keep the values
  under that bound. It has no smallest exponent either: under \<open>2^-1022\<close> the doubles are
  the multiples of \<open>2^-1074\<close>. What \<open>withRetry\<close> rounds is the product of a double and
  an integer or the sum of two doubles, which is such a multiple when it is that small,
  and \<open>fl\<close> leaves it as it is, as JavaScript does. \<open>double x\<close> says that \<open>x\<close> is a
  finite double.
\<close>

definition rne :: "real \<Rightarrow> int" where
  "rne x =
     (let f = \<lfloor>x\<rfloor>; r = x - real_of_int f
      in if r < 1 / 2 then f else if 1 / 2 < r then f + 1 else if even f then f else f + 1)"

definition binade :: "real \<Rightarrow> int" where
  "binade x = \<lfloor>log 2 \<bar>x\<bar>\<rfloor>"

definition ulp :: "real \<Rightarrow> real" where
  "ulp x = 2 powr real_of_int (binade x - 52)"

definition fl :: "real \<Rightarrow> real" where
  "fl x = (if x = 0 then 0 else real_of_int (rne (x / ulp x)) * ulp x)"



section \<open>resilience.ts: withRetry\<close>

text \<open>
  \<^verbatim>\<open>const isRetryable = error.code === 'ECONNRESET' ||
                      error.code === 'ETIMEDOUT' ||
                      error.code === 'ECONNREFUSED'\<close>
\<close>

definition isRetryable :: "error \<Rightarrow> bool" where
  "isRetryable err =
     (code err = Some ''ECONNRESET'' \<or>
      code err = Some ''ETIMEDOUT'' \<or>
      code err = Some ''ECONNREFUSED'')"

text \<open>
  \<open>new Error('Max retries reached')\<close>. The stack is written by the runtime; the model
  keeps its first line.
\<close>

definition maxRetriesReached :: error where
  "maxRetriesReached =
     \<lparr>code = None, message = ''Max retries reached'',
      stack = Some ''Error: Max retries reached''\<rparr>"

text \<open>The record written by \<open>logger.warn('Retry attempt', {...})\<close>.\<close>

definition retryLog :: "int \<Rightarrow> int \<Rightarrow> real \<Rightarrow> error \<Rightarrow> event" where
  "retryLog attempt maxRetries d err =
     Log Warn ''Retry attempt''
       [(''attempt'', JNum (real_of_int (attempt + 1))),
        (''maxRetries'', JNum (real_of_int maxRetries)),
        (''delay'', JNum d),
        (''error'', JStr (message err))]"

text \<open>
  The loop of \<open>withRetry\<close>, entered with the loop variable \<open>attempt\<close>.
  \<^verbatim>\<open>
  for (let attempt = 0; attempt < maxRetries; attempt++) {
    try { return await fn() }
    catch (error: any) {
      const isLastAttempt = attempt === maxRetries - 1
      const isRetryable = ...
      if (isLastAttempt || !isRetryable) { throw error }
      const delay = baseDelay * Math.pow(2, attempt)
      const jitter = Math.random() * 1000
      logger.warn('Retry attempt', { attempt: attempt + 1, maxRetries,
                                     delay: delay + jitter, error: error.message })
      await new Promise(resolve => setTimeout(resolve, delay + jitter))
    }
  }
  throw new Error('Max retries reached')
  \<close>
  \<open>maxRetries\<close> is an integer. \<open>baseDelay\<close>, \<open>Math.random()\<close> and the delays are
  doubles: \<open>Math.pow(2, attempt)\<close> is exact as long as it is finite, and the product, the
  jitter and the sum are each rounded. The sum is what the log record shows and what
  \<open>setTimeout\<close> is given; what the timer of the runtime makes of it is not modelled.
\<close>

function withRetry_from ::
  "(nat \<Rightarrow> real) \<Rightarrow> ('d world \<Rightarrow> (error + 'a) \<times> 'd world) \<Rightarrow> int \<Rightarrow> real \<Rightarrow> int \<Rightarrow>
   'd world \<Rightarrow> (error + 'a) \<times> 'd world"
where
  "withRetry_from rnd fn maxRetries baseDelay attempt w =
     (if attempt < maxRetries then
        (case fn w of
           (Inr v, w1) \<Rightarrow> (Inr v, w1)
         | (Inl err, w1) \<Rightarrow>
             (let isLastAttempt = (attempt = maxRetries - 1) in
              if isLastAttempt \<or> \<not> isRetryable err then (Inl err, w1)
              else
                (let delay = fl (baseDelay * 2 ^ nat attempt);
                     jitter = fl (rnd (ticks w1) * 1000);
                     w2 = emit (retryLog attempt maxRetries (fl (delay + jitter)) err) w1;
                     w3 = emit (Sleep (fl (delay + jitter))) w2
                 in withRetry_from rnd fn maxRetries baseDelay (attempt + 1) w3)))
      else (Inl maxRetriesReached, w))"
  by pat_completeness auto
termination
  by (relation "measure (\<lambda>(rnd, fn, maxRetries, baseDelay, attempt, w). nat (maxRetries - attempt))")
     auto

definition withRetry ::
  "(nat \<Rightarrow> real) \<Rightarrow> ('d world \<Rightarrow> (error + 'a) \<times> 'd world) \<Rightarrow> int \<Rightarrow> real \<Rightarrow>
   'd world \<Rightarrow> (error + 'a) \<times> 'd world"
where
  "withRetry rnd fn maxRetries baseDelay w = withRetry_from rnd fn maxRetries baseDelay 0 w"

text \<open>
  An operation given by the outcomes of its successive invocations; \<open>dep\<close> counts the
  invocations, so the number of attempts of a call is the growth of \<open>dep\<close>.
\<close>

definition scripted_op :: "(nat \<Rightarrow> error + 'a) \<Rightarrow> nat world \<Rightarrow> (error + 'a) \<times> nat world" where
  "scripted_op outs w = (outs (dep w), w\<lparr>dep := Suc (dep w)\<rparr>)"



definition boom :: error where
  "boom = \<lparr>code = None, message = ''boom'', stack = None\<rparr>"

definition world0 :: "nat world" where
  "world0 = \<lparr>dep = 0, trace = []\<rparr>"


section \<open>todoService.ts\<close>

text \<open>
  A row of table \<open>todos\<close> as the driver hands it to \<open>mapRow\<close>, with the properties
  \<open>mapRow\<close> reads; \<open>None\<close> is a column that is null or absent.
\<close>

record row =
  row_id :: string
  row_title :: string
  row_description :: "string option"
  row_status :: string
  row_dueDate :: "string option"
  row_createdAt :: string
  row_updatedAt :: string
  row_completedAt :: "string option"

record QueryResult =
  rows :: "row list"

record Todo =
  todoId :: string
  title :: string
  description :: "string option"
  status :: string
  dueDate :: "string option"
  createdAt :: string
  updatedAt :: string
  completedAt :: "string option"
  notes' :: "string option"

text \<open>
  What the service and the event publishers take from their surroundings.
  \<open>fire\<close> is \<open>dbBreaker.fire\<close>: the circuit breaker of the \<open>opossum\<close> package around
  \<open>db.query\<close> of the \<open>pg\<close> pool, neither of which is part of the repository. It is a
  parameter: an arbitrary machine with a state of its own that answers a statement with
  a result or rejects with an error. \<open>random\<close>, \<open>toISOString\<close> and \<open>uuidv4\<close> give the
  value of \<open>Math.random()\<close>, \<open>new Date().toISOString()\<close> and \<open>uuidv4()\<close> read at a
  logical time.
\<close>

record 'd env =
  fire :: "string \<Rightarrow> param list \<Rightarrow> 'd \<Rightarrow> (error + QueryResult) \<times> 'd"
  random :: "nat \<Rightarrow> real"
  toISOString :: "nat \<Rightarrow> string"
  uuidv4 :: "nat \<Rightarrow> string"

text \<open>
  One call \<open>dbBreaker.fire(query, params)\<close>: the call is recorded in the trace. The
  log records that the handlers of \<open>createCircuitBreaker\<close> write when the breaker
  opens, half-opens or closes are not recorded: no property below speaks of log records
  around a call of the breaker.
\<close>

definition dbBreaker_fire ::
  "'d env \<Rightarrow> string \<Rightarrow> param list \<Rightarrow> 'd world \<Rightarrow> (error + QueryResult) \<times> 'd world"
where
  "dbBreaker_fire env query params w =
     (case fire env query params (dep w) of
        (r, d') \<Rightarrow> (r, (emit (Fire query params) w)\<lparr>dep := d'\<rparr>))"

text \<open>The statements of the service, character by character.\<close>

definition sqlSelectByStatus :: string where
  "sqlSelectByStatus = ''SELECT * FROM todos WHERE status = $1 ORDER BY createdAt DESC''"

definition sqlSelectAll :: string where
  "sqlSelectAll = ''SELECT * FROM todos ORDER BY createdAt DESC''"

definition sqlSelectById :: string where
  "sqlSelectById = ''SELECT * FROM todos WHERE id = $1''"

definition sqlInsert :: string where
  "sqlInsert =
     ''INSERT INTO todos (id, title, description, status, dueDate, createdAt, updatedAt)\<newline>'' @
     ''         VALUES ($1, $2, $3, $4, $5, $6, $7)\<newline>'' @
     ''         RETURNING *''"

definition sqlUpdate :: string where
  "sqlUpdate =
     ''UPDATE todos\<newline>'' @
     ''         SET title = COALESCE($2, title),\<newline>'' @
     ''             description = COALESCE($3, description),\<newline>'' @
     ''             status = COALESCE($4, status),\<newline>'' @
     ''             dueDate = COALESCE($5, dueDate),\<newline>'' @
     ''             updatedAt = $6\<newline>'' @
     ''         WHERE id = $1\<newline>'' @
     ''         RETURNING *''"

definition sqlDelete :: string where
  "sqlDelete = ''DELETE FROM todos WHERE id = $1''"

definition sqlComplete :: string where
  "sqlComplete =
     ''UPDATE todos\<newline>'' @
     ''         SET status = 'COMPLETED',\<newline>'' @
     ''             completedAt = $2,\<newline>'' @
     ''             updatedAt = $2\<newline>'' @
     ''         WHERE id = $1\<newline>'' @
     ''         RETURNING *''"

text \<open>
  \<^verbatim>\<open>private mapRow(row: any): Todo\<close>: the deprecated field \<open>notes\<close> is filled from
  \<open>row.description\<close>.
\<close>

definition mapRow :: "row \<Rightarrow> Todo" where
  "mapRow r =
     \<lparr>todoId = row_id r,
      title = row_title r,
      description = row_description r,
      status = row_status r,
      dueDate = row_dueDate r,
      createdAt = row_createdAt r,
      updatedAt = row_updatedAt r,
      completedAt = row_completedAt r,
      notes' = row_description r\<rparr>"

text \<open>
  \<open>this.mapRow(result.rows[0])\<close>: on an empty result \<open>rows[0]\<close> is \<open>undefined\<close> and
  reading \<open>row.id\<close> throws a \<open>TypeError\<close>.
\<close>

definition undefinedRow :: error where
  "undefinedRow =
     \<lparr>code = None,
      message = ''Cannot read properties of undefined (reading 'id')'',
      stack = Some ''TypeError: Cannot read properties of undefined (reading 'id')''\<rparr>"

definition mapFirstRow :: "QueryResult \<Rightarrow> error + Todo" where
  "mapFirstRow result = (case rows result of [] \<Rightarrow> Inl undefinedRow | r # _ \<Rightarrow> Inr (mapRow r))"

definition jopt :: "string option \<Rightarrow> jv" where
  "jopt x = (case x of None \<Rightarrow> JNull | Some s \<Rightarrow> JStr s)"

definition popt :: "string option \<Rightarrow> param" where
  "popt x = (case x of None \<Rightarrow> PUndefined | Some s \<Rightarrow> PStr s)"


subsection \<open>todoEvents.ts\<close>

text \<open>
  \<open>eventBus.publish\<close>: no module of the repository calls \<open>eventBus.subscribe\<close>, so the
  list of handlers of every event type is empty; the call writes its log record and
  runs no handler.
\<close>

definition eventBus_publish :: "CloudEvent \<Rightarrow> 'd world \<Rightarrow> 'd world" where
  "eventBus_publish ev w =
     emit (Log Info ''Event published''
            [(''eventId'', JStr (ce_id ev)),
             (''eventType'', JStr (ce_type ev)),
             (''subject'', jopt (ce_subject ev)),
             (''subscriberCount'', JNum 0)])
       (emit (Publish ev) w)"

definition cloudEvent :: "'d env \<Rightarrow> 'd world \<Rightarrow> string \<Rightarrow> Todo \<Rightarrow> (string \<times> jv) list \<Rightarrow> CloudEvent" where
  "cloudEvent env w ty todo dat =
     \<lparr>ce_id = uuidv4 env (ticks w),
      ce_source = ''/todo-service'',
      ce_specversion = ''1.0'',
      ce_type = ty,
      ce_datacontenttype = ''application/json'',
      ce_time = toISOString env (ticks w),
      ce_subject = Some (''todo/'' @ todoId todo),
      ce_data = dat\<rparr>"

definition publishTodoCreated :: "'d env \<Rightarrow> Todo \<Rightarrow> 'd world \<Rightarrow> 'd world" where
  "publishTodoCreated env todo w =
     eventBus_publish
       (cloudEvent env w ''todos.todo.created.v1'' todo
          [(''todoId'', JStr (todoId todo)),
           (''title'', JStr (title todo)),
           (''status'', JStr (status todo)),
           (''createdAt'', JStr (createdAt todo))]) w"

definition publishTodoUpdated :: "'d env \<Rightarrow> Todo \<Rightarrow> 'd world \<Rightarrow> 'd world" where
  "publishTodoUpdated env todo w =
     eventBus_publish
       (cloudEvent env w ''todos.todo.updated.v1'' todo
          [(''todoId'', JStr (todoId todo)),
           (''title'', JStr (title todo)),
           (''status'', JStr (status todo)),
           (''updatedAt'', JStr (updatedAt todo))]) w"

definition publishTodoCompleted :: "'d env \<Rightarrow> Todo \<Rightarrow> 'd world \<Rightarrow> 'd world" where
  "publishTodoCompleted env todo w =
     eventBus_publish
       (cloudEvent env w ''todos.todo.completed.v1'' todo
          [(''todoId'', JStr (todoId todo)),
           (''title'', JStr (title todo)),
           (''completedAt'', jopt (completedAt todo))]) w"

definition publishTodoDeleted :: "'d env \<Rightarrow> Todo \<Rightarrow> 'd world \<Rightarrow> 'd world" where
  "publishTodoDeleted env todo w =
     eventBus_publish
       (cloudEvent env w ''todos.todo.deleted.v1'' todo
          [(''todoId'', JStr (todoId todo)),
           (''title'', JStr (title todo))]) w"


subsection \<open>class TodoService\<close>

text \<open>
  The inputs the resolvers hand to the service, after validation (\<open>types/index.ts\<close>);
  \<open>None\<close> is an absent property.
\<close>

record CreateTodoInput =
  c_title :: string
  c_description :: "string option"
  c_dueDate :: "string option"

record UpdateTodoInput =
  u_title :: "string option"
  u_description :: "string option"
  u_status :: "string option"
  u_dueDate :: "string option"

text \<open>
  \<^verbatim>\<open>withRetry<QueryResult>(() => dbBreaker.fire(query, params))\<close> with the defaults
  \<open>maxRetries = 3\<close> and \<open>baseDelay = 1000\<close>: the form of every persistence call of
  the service.
\<close>

definition retried ::
  "'d env \<Rightarrow> string \<Rightarrow> param list \<Rightarrow> 'd world \<Rightarrow> (error + QueryResult) \<times> 'd world"
where
  "retried env query params w =
     withRetry (random env) (dbBreaker_fire env query params) 3 1000 w"

text \<open>\<open>status ? ... : ...\<close>: \<open>undefined\<close> and the empty string are falsy.\<close>

definition truthy :: "string option \<Rightarrow> bool" where
  "truthy x = (case x of None \<Rightarrow> False | Some s \<Rightarrow> s \<noteq> [])"

definition findAll :: "'d env \<Rightarrow> string option \<Rightarrow> 'd world \<Rightarrow> (error + Todo list) \<times> 'd world" where
  "findAll env st w =
     (let query = (if truthy st then sqlSelectByStatus else sqlSelectAll);
          params = (if truthy st then [popt st] else [])
      in case retried env query params w of
           (Inl e, w1) \<Rightarrow> (Inl e, w1)
         | (Inr result, w1) \<Rightarrow> (Inr (map mapRow (rows result)), w1))"

definition findById :: "'d env \<Rightarrow> string \<Rightarrow> 'd world \<Rightarrow> (error + Todo option) \<times> 'd world" where
  "findById env i w =
     (case retried env sqlSelectById [PStr i] w of
        (Inl e, w1) \<Rightarrow> (Inl e, w1)
      | (Inr result, w1) \<Rightarrow>
          (if length (rows result) = 0 then (Inr None, w1)
           else (case mapFirstRow result of
                   Inl e \<Rightarrow> (Inl e, w1)
                 | Inr todo \<Rightarrow> (Inr (Some todo), w1))))"

definition create :: "'d env \<Rightarrow> CreateTodoInput \<Rightarrow> 'd world \<Rightarrow> (error + Todo) \<times> 'd world" where
  "create env input w =
     (let i = uuidv4 env (ticks w);
          now = toISOString env (ticks w)
      in case retried env sqlInsert
                [PStr i, PStr (c_title input), popt (c_description input), PStr ''PENDING'',
                 popt (c_dueDate input), PStr now, PStr now] w of
           (Inl e, w1) \<Rightarrow> (Inl e, w1)
         | (Inr result, w1) \<Rightarrow>
             (case mapFirstRow result of
                Inl e \<Rightarrow> (Inl e, w1)
              | Inr todo \<Rightarrow> (Inr todo, publishTodoCreated env todo w1)))"

definition update ::
  "'d env \<Rightarrow> string \<Rightarrow> UpdateTodoInput \<Rightarrow> 'd world \<Rightarrow> (error + Todo option) \<times> 'd world"
where
  "update env i input w =
     (case findById env i w of
        (Inl e, w1) \<Rightarrow> (Inl e, w1)
      | (Inr None, w1) \<Rightarrow> (Inr None, w1)
      | (Inr (Some existing), w1) \<Rightarrow>
          (let now = toISOString env (ticks w1)
           in case retried env sqlUpdate
                     [PStr i, popt (u_title input), popt (u_description input),
                      popt (u_status input), popt (u_dueDate input), PStr now] w1 of
                (Inl e, w2) \<Rightarrow> (Inl e, w2)
              | (Inr result, w2) \<Rightarrow>
                  (case mapFirstRow result of
                     Inl e \<Rightarrow> (Inl e, w2)
                   | Inr todo \<Rightarrow> (Inr (Some todo), publishTodoUpdated env todo w2))))"

definition delete :: "'d env \<Rightarrow> string \<Rightarrow> 'd world \<Rightarrow> (error + Todo option) \<times> 'd world" where
  "delete env i w =
     (case findById env i w of
        (Inl e, w1) \<Rightarrow> (Inl e, w1)
      | (Inr None, w1) \<Rightarrow> (Inr None, w1)
      | (Inr (Some existing), w1) \<Rightarrow>
          (case retried env sqlDelete [PStr i] w1 of
             (Inl e, w2) \<Rightarrow> (Inl e, w2)
           | (Inr _, w2) \<Rightarrow> (Inr (Some existing), publishTodoDeleted env existing w2)))"

definition complete' :: "'d env \<Rightarrow> string \<Rightarrow> 'd world \<Rightarrow> (error + Todo option) \<times> 'd world" where
  "complete' env i w =
     (case findById env i w of
        (Inl e, w1) \<Rightarrow> (Inl e, w1)
      | (Inr None, w1) \<Rightarrow> (Inr None, w1)
      | (Inr (Some existing), w1) \<Rightarrow>
          (let now = toISOString env (ticks w1)
           in case retried env sqlComplete [PStr i, PStr now] w1 of
                (Inl e, w2) \<Rightarrow> (Inl e, w2)
              | (Inr result, w2) \<Rightarrow>
                  (case mapFirstRow result of
                     Inl e \<Rightarrow> (Inl e, w2)
                   | Inr todo \<Rightarrow> (Inr (Some todo), publishTodoCompleted env todo w2))))"


section \<open>utils/validation.ts\<close>

text \<open>An issue reported by \<open>schema.safeParse\<close>, and the entry \<open>validateInput\<close> makes of it.\<close>

record issue =
  path :: "string list"
  issue_message :: string

record field_error =
  fe_field :: string
  fe_message :: string

record ValidationError =
  ve_typename :: string
  ve_message :: string
  ve_code :: string
  ve_fields :: "field_error list"

text \<open>\<open>issue.path.join('.')\<close>\<close>

fun join :: "string \<Rightarrow> string list \<Rightarrow> string" where
  "join sep [] = []"
| "join sep [x] = x"
| "join sep (x # y # ys) = x @ sep @ join sep (y # ys)"

text \<open>
  A schema is its \<open>safeParse\<close>: the issues, or the parsed data.
  \<^verbatim>\<open>
  export function validateInput<T>(schema: z.ZodSchema<T>, data: unknown) {
    const result = schema.safeParse(data)
    if (!result.success) {
      const fields = result.error.issues.map(issue => ({
        field: issue.path.join('.'), message: issue.message }))
      return { __typename: 'ValidationError', message: 'Input validation failed',
               code: 'VALIDATION_ERROR', fields }
    }
    return result.data
  }
  \<close>
\<close>

definition validateInput :: "('i \<Rightarrow> issue list + 'o) \<Rightarrow> 'i \<Rightarrow> ValidationError + 'o" where
  "validateInput schema data =
     (case schema data of
        Inl issues \<Rightarrow>
          Inl \<lparr>ve_typename = ''ValidationError'',
               ve_message = ''Input validation failed'',
               ve_code = ''VALIDATION_ERROR'',
               ve_fields = map (\<lambda>issue. \<lparr>fe_field = join ''.'' (path issue),
                                           fe_message = issue_message issue\<rparr>) issues\<rparr>
      | Inr parsed \<Rightarrow> Inr parsed)"

text \<open>\<open>/^\d{4}-\d{2}-\d{2}$/\<close>\<close>

definition isDigit :: "char \<Rightarrow> bool" where
  "isDigit c = (c \<in> set ''0123456789'')"

definition isYMD :: "string \<Rightarrow> bool" where
  "isYMD s =
     (length s = 10 \<and>
      list_all isDigit (take 4 s) \<and> s ! 4 = CHR ''-'' \<and>
      list_all isDigit (take 2 (drop 5 s)) \<and> s ! 7 = CHR ''-'' \<and>
      list_all isDigit (drop 8 s))"

definition titleIssues :: "string \<Rightarrow> issue list" where
  "titleIssues t =
     (if length t < 3
      then [\<lparr>path = [''title''], issue_message = ''Title must be at least 3 characters''\<rparr>]
      else []) @
     (if length t > 200
      then [\<lparr>path = [''title''], issue_message = ''Title must not exceed 200 characters''\<rparr>]
      else [])"

definition descriptionIssues :: "string option \<Rightarrow> issue list" where
  "descriptionIssues d =
     (case d of
        None \<Rightarrow> []
      | Some t \<Rightarrow>
          if length t > 1000
          then [\<lparr>path = [''description''],
                 issue_message = ''Description must not exceed 1000 characters''\<rparr>]
          else [])"

definition dueDateIssues :: "string option \<Rightarrow> issue list" where
  "dueDateIssues d =
     (case d of
        None \<Rightarrow> []
      | Some t \<Rightarrow>
          if isYMD t then []
          else [\<lparr>path = [''dueDate''], issue_message = ''Must be YYYY-MM-DD format''\<rparr>])"

definition statusIssues :: "string option \<Rightarrow> issue list" where
  "statusIssues st =
     (case st of
        None \<Rightarrow> []
      | Some t \<Rightarrow>
          if t \<in> set [''PENDING'', ''IN_PROGRESS'', ''COMPLETED'', ''ARCHIVED''] then []
          else [\<lparr>path = [''status''],
                 issue_message =
                   ''Status must be one of: PENDING, IN_PROGRESS, COMPLETED, ARCHIVED''\<rparr>])"

text \<open>
  \<^verbatim>\<open>
  export const CreateTodoInputSchema = z.object({
    title: z.string().min(3, 'Title must be at least 3 characters')
                     .max(200, 'Title must not exceed 200 characters'),
    description: z.string().max(1000, 'Description must not exceed 1000 characters').optional(),
    dueDate: z.string().regex(/^\d{4}-\d{2}-\d{2}$/, 'Must be YYYY-MM-DD format').optional()
  })
  \<close>
  The input is the GraphQL input object, so \<open>title\<close> is a string; the issues come in
  the order of the keys and, for one key, of the checks.
\<close>

definition CreateTodoInputSchema :: "CreateTodoInput \<Rightarrow> issue list + CreateTodoInput" where
  "CreateTodoInputSchema data =
     (let issues = titleIssues (c_title data) @ descriptionIssues (c_description data) @
                   dueDateIssues (c_dueDate data)
      in if issues = [] then Inr data else Inl issues)"

definition UpdateTodoInputSchema :: "UpdateTodoInput \<Rightarrow> issue list + UpdateTodoInput" where
  "UpdateTodoInputSchema data =
     (let issues = (case u_title data of None \<Rightarrow> [] | Some t \<Rightarrow> titleIssues t) @
                   descriptionIssues (u_description data) @
                   statusIssues (u_status data) @
                   dueDateIssues (u_dueDate data)
      in if issues = [] then Inr data else Inl issues)"


section \<open>resolvers/todoResolver.ts\<close>

record GraphQLContext =
  correlationId :: string

text \<open>\<open>new GraphQLError(message, { extensions })\<close>\<close>

record GraphQLError =
  gql_message :: string
  extensions :: "(string \<times> jv) list"

record TodoNotFoundError =
  nf_typename :: string
  nf_message :: string
  nf_code :: string
  nf_todoId :: string

text \<open>
  What a mutation returns: the validation error of \<open>validateInput\<close>, the not-found
  object, \<open>{ __typename: 'CreateTodoSuccess', todo }\<close>, or the todo itself.
\<close>

datatype outcome =
    Validation ValidationError
  | NotFound TodoNotFoundError
  | CreateTodoSuccess Todo
  | Plain Todo

text \<open>\<open>logger.child({ correlationId: context.correlationId })\<close>, then \<open>log.info\<close> and so on.\<close>

definition childLog ::
  "GraphQLContext \<Rightarrow> level \<Rightarrow> string \<Rightarrow> (string \<times> jv) list \<Rightarrow> 'd world \<Rightarrow> 'd world"
where
  "childLog context lv msg meta w =
     emit (Log lv msg ((''correlationId'', JStr (correlationId context)) # meta)) w"

definition createInputJson :: "CreateTodoInput \<Rightarrow> jv" where
  "createInputJson input =
     JObj [(''title'', JStr (c_title input)),
           (''description'', jopt (c_description input)),
           (''dueDate'', jopt (c_dueDate input))]"

definition updateInputJson :: "UpdateTodoInput \<Rightarrow> jv" where
  "updateInputJson input =
     JObj [(''title'', jopt (u_title input)),
           (''description'', jopt (u_description input)),
           (''status'', jopt (u_status input)),
           (''dueDate'', jopt (u_dueDate input))]"

definition fieldsJson :: "field_error list \<Rightarrow> jv" where
  "fieldsJson fs =
     JArr (map (\<lambda>f. JObj [(''field'', JStr (fe_field f)), (''message'', JStr (fe_message f))]) fs)"

definition internalError :: "string \<Rightarrow> error \<Rightarrow> GraphQLError" where
  "internalError msg err =
     \<lparr>gql_message = msg,
      extensions = [(''code'', JStr ''INTERNAL_ERROR''),
                    (''originalError'', JStr (message err))]\<rparr>"

definition notFound :: "string \<Rightarrow> TodoNotFoundError" where
  "notFound i =
     \<lparr>nf_typename = ''TodoNotFoundError'',
      nf_message = ''Todo not found'',
      nf_code = ''TODO_NOT_FOUND'',
      nf_todoId = i\<rparr>"

text \<open>\<open>Query.todos\<close>\<close>

definition todos ::
  "'d env \<Rightarrow> string option \<Rightarrow> GraphQLContext \<Rightarrow> 'd world \<Rightarrow> (GraphQLError + Todo list) \<times> 'd world"
where
  "todos env st context w =
     (let w0 = childLog context Info ''Fetching todos'' [(''status'', jopt st)] w
      in case findAll env st w0 of
           (Inr ts, w1) \<Rightarrow>
             (Inr ts, childLog context Info ''Todos fetched''
                        [(''count'', JNum (real (length ts)))] w1)
         | (Inl err, w1) \<Rightarrow>
             (Inl (internalError ''Failed to fetch todos'' err),
              childLog context Err ''Failed to fetch todos''
                [(''error'', JStr (message err)), (''stack'', jopt (stack err))] w1))"

text \<open>\<open>Mutation.createTodo\<close>\<close>

definition createTodo ::
  "'d env \<Rightarrow> CreateTodoInput \<Rightarrow> GraphQLContext \<Rightarrow> 'd world \<Rightarrow> (GraphQLError + outcome) \<times> 'd world"
where
  "createTodo env input context w =
     (let w0 = childLog context Info ''Creating todo'' [(''input'', createInputJson input)] w
      in case validateInput CreateTodoInputSchema input of
           Inl validated \<Rightarrow>
             (Inr (Validation validated),
              childLog context Warn ''Validation failed''
                [(''errors'', fieldsJson (ve_fields validated))] w0)
         | Inr validated \<Rightarrow>
             (case create env validated w0 of
                (Inr todo, w1) \<Rightarrow>
                  (Inr (CreateTodoSuccess todo),
                   childLog context Info ''Todo created'' [(''todoId'', JStr (todoId todo))] w1)
              | (Inl err, w1) \<Rightarrow>
                  (Inl (internalError ''Failed to create todo'' err),
                   childLog context Err ''Failed to create todo''
                     [(''error'', JStr (message err)), (''stack'', jopt (stack err))] w1)))"

text \<open>\<open>Mutation.updateTodo\<close>\<close>

definition updateTodo ::
  "'d env \<Rightarrow> string \<Rightarrow> UpdateTodoInput \<Rightarrow> GraphQLContext \<Rightarrow> 'd world \<Rightarrow>
   (GraphQLError + outcome) \<times> 'd world"
where
  "updateTodo env i input context w =
     (let w0 = childLog context Info ''Updating todo''
                 [(''todoId'', JStr i), (''input'', updateInputJson input)] w
      in case validateInput UpdateTodoInputSchema input of
           Inl validated \<Rightarrow> (Inr (Validation validated), w0)
         | Inr validated \<Rightarrow>
             (case update env i validated w0 of
                (Inr None, w1) \<Rightarrow> (Inr (NotFound (notFound i)), w1)
              | (Inr (Some todo), w1) \<Rightarrow>
                  (Inr (Plain todo), childLog context Info ''Todo updated'' [(''todoId'', JStr i)] w1)
              | (Inl err, w1) \<Rightarrow>
                  (Inl (internalError ''Failed to update todo'' err),
                   childLog context Err ''Failed to update todo''
                     [(''todoId'', JStr i), (''error'', JStr (message err))] w1)))"


section \<open>Persistence collaborators used to instantiate the theorems\<close>

definition half_jitter :: "nat \<Rightarrow> real" where
  "half_jitter t = 1 / 2"

definition always_boom :: "nat \<Rightarrow> error + unit" where
  "always_boom i = Inl boom"


definition clock0 :: "nat \<Rightarrow> string" where
  "clock0 t = ''2025-11-14T10:00:00.000Z''"

definition uuid0 :: "nat \<Rightarrow> string" where
  "uuid0 t = ''7c9e6679-7425-40de-944b-e07fc1f90ae7''"

text \<open>A collaborator that rejects every call with an error the retry policy does not retry.\<close>

definition undefined_column :: error where
  "undefined_column =
     \<lparr>code = Some ''42703'',
      message = ''column duedate of relation todos does not exist'',
      stack = Some ''error: column duedate of relation todos does not exist''\<rparr>"

definition broken_fire :: "string \<Rightarrow> param list \<Rightarrow> nat \<Rightarrow> (error + QueryResult) \<times> nat" where
  "broken_fire q ps d = (Inl undefined_column, Suc d)"

definition broken_env :: "nat env" where
  "broken_env = \<lparr>fire = broken_fire, random = half_jitter, toISOString = clock0, uuidv4 = uuid0\<rparr>"

text \<open>
  A collaborator that keeps the table as a list of rows and answers the statements of
  the service on it, never failing. \<open>ORDER BY\<close> is not interpreted: the rows come in
  the order of the list.
\<close>

fun pstr :: "param list \<Rightarrow> nat \<Rightarrow> string option" where
  "pstr ps n = (if n < length ps then (case ps ! n of PStr s \<Rightarrow> Some s | PUndefined \<Rightarrow> None) else None)"

definition coalesce :: "string option \<Rightarrow> string \<Rightarrow> string" where
  "coalesce x y = (case x of None \<Rightarrow> y | Some v \<Rightarrow> v)"

definition coalesce_opt :: "string option \<Rightarrow> string option \<Rightarrow> string option" where
  "coalesce_opt x y = (case x of None \<Rightarrow> y | Some v \<Rightarrow> Some v)"

definition table_fire :: "string \<Rightarrow> param list \<Rightarrow> row list \<Rightarrow> (error + QueryResult) \<times> row list" where
  "table_fire q ps tbl =
     (if q = sqlSelectAll then (Inr \<lparr>rows = tbl\<rparr>, tbl)
      else if q = sqlSelectByStatus then
        (Inr \<lparr>rows = filter (\<lambda>r. Some (row_status r) = pstr ps 0) tbl\<rparr>, tbl)
      else if q = sqlSelectById then
        (Inr \<lparr>rows = filter (\<lambda>r. Some (row_id r) = pstr ps 0) tbl\<rparr>, tbl)
      else if q = sqlInsert then
        (let r = \<lparr>row_id = coalesce (pstr ps 0) [], row_title = coalesce (pstr ps 1) [],
                  row_description = pstr ps 2, row_status = coalesce (pstr ps 3) [],
                  row_dueDate = pstr ps 4, row_createdAt = coalesce (pstr ps 5) [],
                  row_updatedAt = coalesce (pstr ps 6) [], row_completedAt = None\<rparr>
         in (Inr \<lparr>rows = [r]\<rparr>, tbl @ [r]))
      else if q = sqlUpdate then
        (let upd = (\<lambda>r. if Some (row_id r) = pstr ps 0
                         then r\<lparr>row_title := coalesce (pstr ps 1) (row_title r),
                                row_description := coalesce_opt (pstr ps 2) (row_description r),
                                row_status := coalesce (pstr ps 3) (row_status r),
                                row_dueDate := coalesce_opt (pstr ps 4) (row_dueDate r),
                                row_updatedAt := coalesce (pstr ps 5) (row_updatedAt r)\<rparr>
                         else r);
             tbl' = map upd tbl
         in (Inr \<lparr>rows = filter (\<lambda>r. Some (row_id r) = pstr ps 0) tbl'\<rparr>, tbl'))
      else if q = sqlDelete then
        (Inr \<lparr>rows = []\<rparr>, filter (\<lambda>r. Some (row_id r) \<noteq> pstr ps 0) tbl)
      else if q = sqlComplete then
        (let upd = (\<lambda>r. if Some (row_id r) = pstr ps 0
                         then r\<lparr>row_status := ''COMPLETED'',
                                row_completedAt := pstr ps 1,
                                row_updatedAt := coalesce (pstr ps 1) (row_updatedAt r)\<rparr>
                         else r);
             tbl' = map upd tbl
         in (Inr \<lparr>rows = filter (\<lambda>r. Some (row_id r) = pstr ps 0) tbl'\<rparr>, tbl'))
      else (Inl boom, tbl))"

definition table_env :: "row list env" where
  "table_env = \<lparr>fire = table_fire, random = half_jitter, toISOString = clock0, uuidv4 = uuid0\<rparr>"

definition row1 :: row where
  "row1 =
     \<lparr>row_id = ''1'', row_title = ''Test Todo'', row_description = Some ''Test description'',
      row_status = ''PENDING'', row_dueDate = None,
      row_createdAt = ''2025-11-14T09:00:00.000Z'', row_updatedAt = ''2025-11-14T09:00:00.000Z'',
      row_completedAt = None\<rparr>"

definition table1 :: "row list world" where
  "table1 = \<lparr>dep = [row1], trace = []\<rparr>"

definition ctx0 :: GraphQLContext where
  "ctx0 = \<lparr>correlationId = ''test-123''\<rparr>"

definition short_title :: CreateTodoInput where
  "short_title = \<lparr>c_title = ''ab'', c_description = None, c_dueDate = None\<rparr>"

definition new_todo :: CreateTodoInput where
  "new_todo = \<lparr>c_title = ''New Todo'', c_description = Some ''Test description'', c_dueDate = None\<rparr>"

definition bad_update :: UpdateTodoInput where
  "bad_update = \<lparr>u_title = Some ''ab'', u_description = None, u_status = None, u_dueDate = None\<rparr>"

definition good_update :: UpdateTodoInput where
  "good_update =
     \<lparr>u_title = Some ''Renamed'', u_description = None, u_status = None, u_dueDate = None\<rparr>"













text \<open>
  The columns of the table that \<open>initDatabase\<close> creates:
  \<^verbatim>\<open>
  CREATE TABLE IF NOT EXISTS todos (
    id VARCHAR(36) PRIMARY KEY, title VARCHAR(200) NOT NULL, description TEXT,
    status VARCHAR(20) NOT NULL DEFAULT 'PENDING', due_date DATE,
    created_at TIMESTAMP NOT NULL, updated_at TIMESTAMP NOT NULL, completed_at TIMESTAMP,
    priority_level VARCHAR(10), priority_set_at TIMESTAMP, ...)
  \<close>
\<close>

definition todos_columns :: "string list" where
  "todos_columns =
     [''id'', ''title'', ''description'', ''status'', ''due_date'', ''created_at'',
      ''updated_at'', ''completed_at'', ''priority_level'', ''priority_set_at'']"

text \<open>
  The columns that each statement of the service names, as its text has them and in the
  order of the text.
\<close>

definition named_columns :: "string \<Rightarrow> string list" where
  "named_columns q =
     (if q = sqlSelectByStatus then [''status'', ''createdAt'']
      else if q = sqlSelectAll then [''createdAt'']
      else if q = sqlSelectById then [''id'']
      else if q = sqlInsert then
        [''id'', ''title'', ''description'', ''status'', ''dueDate'', ''createdAt'', ''updatedAt'']
      else if q = sqlUpdate then
        [''title'', ''description'', ''status'', ''dueDate'', ''updatedAt'', ''id'']
      else if q = sqlDelete then [''id'']
      else if q = sqlComplete then [''status'', ''completedAt'', ''updatedAt'', ''id'']
      else [])"

text \<open>The database reads a name that is not quoted in lower case.\<close>

definition lower :: "char \<Rightarrow> char" where
  "lower c =
     (case map_of (zip ''ABCDEFGHIJKLMNOPQRSTUVWXYZ'' ''abcdefghijklmnopqrstuvwxyz'') c of
        Some l \<Rightarrow> l
      | None \<Rightarrow> c)"

text \<open>
  The error of the database for a column that the table does not have (class
  \<open>undefined_column\<close>, code 42703); the message is written without its quotation marks.
\<close>

definition undefinedColumn :: "string \<Rightarrow> error" where
  "undefinedColumn c =
     \<lparr>code = Some ''42703'',
      message = ''column '' @ c @ '' of relation todos does not exist'',
      stack = Some (''error: column '' @ c @ '' of relation todos does not exist'')\<rparr>"

text \<open>
  A collaborator for the table of \<open>initDatabase\<close>: a statement that names a column the
  table does not have is rejected with the first such name and leaves the table as it
  is; any other statement is answered as \<open>table_fire\<close> answers it.
\<close>

definition schema_fire :: "string \<Rightarrow> param list \<Rightarrow> row list \<Rightarrow> (error + QueryResult) \<times> row list" where
  "schema_fire q ps tbl =
     (case filter (\<lambda>c. c \<notin> set todos_columns) (map (map lower) (named_columns q)) of
        [] \<Rightarrow> table_fire q ps tbl
      | c # _ \<Rightarrow> (Inl (undefinedColumn c), tbl))"

definition schema_env :: "row list env" where
  "schema_env = \<lparr>fire = schema_fire, random = half_jitter, toISOString = clock0, uuidv4 = uuid0\<rparr>"


section \<open>Properties of the rounding\<close>







lemma ulp_pos [simp]: "0 < ulp x"
  by (simp add: ulp_def)

lemma ulp_nonneg [simp]: "0 \<le> ulp x"
  by (simp add: ulp_def)

















section \<open>Properties of withRetry\<close>

lemmas withRetry_from_unfold = withRetry_from.simps

declare withRetry_from.simps [simp del]

lemma withRetry_from_exhausted:
  "\<not> attempt < m \<Longrightarrow> withRetry_from rnd fn m b attempt w = (Inl maxRetriesReached, w)"
  by (simp add: withRetry_from_unfold)

lemma withRetry_from_success:
  "attempt < m \<Longrightarrow> fn w = (Inr v, w1) \<Longrightarrow> withRetry_from rnd fn m b attempt w = (Inr v, w1)"
  by (simp add: withRetry_from_unfold)

lemma withRetry_from_nonretryable:
  "attempt < m \<Longrightarrow> fn w = (Inl e, w1) \<Longrightarrow> \<not> isRetryable e \<Longrightarrow>
   withRetry_from rnd fn m b attempt w = (Inl e, w1)"
  by (simp add: withRetry_from_unfold)


lemma withRetry_from_retry:
  "attempt < m \<Longrightarrow> attempt \<noteq> m - 1 \<Longrightarrow> fn w = (Inl e, w1) \<Longrightarrow> isRetryable e \<Longrightarrow>
   d = fl (fl (b * 2 ^ nat attempt) + fl (rnd (ticks w1) * 1000)) \<Longrightarrow>
   withRetry_from rnd fn m b attempt w =
     withRetry_from rnd fn m b (attempt + 1) (emit (Sleep d) (emit (retryLog attempt m d e) w1))"
  by (simp add: withRetry_from_unfold [of rnd fn m b attempt w] Let_def retryLog_def)



text \<open>
  C1, as the code has it. With \<open>maxRetries = 0\<close> the loop body never runs: the
  operation is not attempted at all, and the call fails at once with the error
  \<open>Max retries reached\<close>, leaving the world as it was (no invocation, no delay, no log
  record). This holds for every operation \<open>fn\<close>.
\<close>

theorem withRetry_zero_never_attempts:
  "withRetry rnd fn 0 baseDelay w = (Inl maxRetriesReached, w)"
  by (simp add: withRetry_def withRetry_from_exhausted)

text \<open>
  C1, as stated, fails: with \<open>maxRetries = 0\<close> an operation that would fail with
  \<open>boom\<close> is invoked zero times, not once, and the caller receives
  \<open>Max retries reached\<close>, not the failure of the operation.
\<close>

theorem withRetry_zero_counterexample:
  "fst (withRetry half_jitter (scripted_op always_boom) 0 1000 world0) = Inl maxRetriesReached \<and>
   dep (snd (withRetry half_jitter (scripted_op always_boom) 0 1000 world0)) = 0 \<and>
   \<not> (dep (snd (withRetry half_jitter (scripted_op always_boom) 0 1000 world0)) = 1 \<and>
      fst (withRetry half_jitter (scripted_op always_boom) 0 1000 world0) = Inl boom)"
  by (simp add: withRetry_def withRetry_from_exhausted world0_def)


text \<open>
  C4. If the operation fails with an error whose code is none of \<open>ECONNRESET\<close>,
  \<open>ETIMEDOUT\<close>, \<open>ECONNREFUSED\<close>, then \<open>withRetry\<close> invokes it exactly once and
  hands that failure to the caller: the count of invocations grows by one and the trace
  is unchanged, so there is no delay, no log record and no further attempt. (The
  operation fails only if it is invoked, hence \<open>maxRetries \<ge> 1\<close>.)
\<close>

theorem withRetry_nonretryable_once:
  assumes "0 < m" and "outs (dep w) = Inl e"
    and "code e \<notin> {Some ''ECONNRESET'', Some ''ETIMEDOUT'', Some ''ECONNREFUSED''}"
  shows "withRetry rnd (scripted_op outs) m b w = (Inl e, w\<lparr>dep := Suc (dep w)\<rparr>)"
proof -
  have "\<not> isRetryable e" using assms(3) by (simp add: isRetryable_def)
  moreover have "scripted_op outs w = (Inl e, w\<lparr>dep := Suc (dep w)\<rparr>)"
    using assms(2) by (simp add: scripted_op_def)
  ultimately show ?thesis
    unfolding withRetry_def using assms(1) by (simp add: withRetry_from_nonretryable)
qed


theorem withRetry_nonretryable_once_witness:
  "(0::int) < 3 \<and> always_boom (dep world0) = Inl boom \<and>
   withRetry half_jitter (scripted_op always_boom) 3 1000 world0 = (Inl boom, \<lparr>dep = 1, trace = []\<rparr>)"
  using withRetry_nonretryable_once [of 3 always_boom world0 boom half_jitter 1000]
  by (simp add: always_boom_def boom_def world0_def)









section \<open>Properties of the service and the resolvers\<close>

lemma fired_append: "fired (xs @ ys) = fired xs @ fired ys"
  by (induction xs rule: fired.induct) simp_all

lemma delays_append: "delays (xs @ ys) = delays xs @ delays ys"
  by (induction xs rule: delays.induct) simp_all

lemma published_append: "published (xs @ ys) = published xs @ published ys"
  by (induction xs rule: published.induct) simp_all

lemma emitted_append: "trace w' = trace w @ es \<Longrightarrow> emitted w w' = es"
  by (simp add: emitted_def)

lemma withRetry_from_stop:
  "attempt < m \<Longrightarrow> fn w = (Inl e, w1) \<Longrightarrow> attempt = m - 1 \<or> \<not> isRetryable e \<Longrightarrow>
   withRetry_from rnd fn m b attempt w = (Inl e, w1)"
  by (simp add: withRetry_from_unfold)

lemma dbBreaker_fire_step:
  assumes "dbBreaker_fire env q ps w = (r, w1)"
  shows "trace w1 = trace w @ [Fire q ps] \<and> (\<exists>d'. fire env q ps (dep w) = (r, d'))"
  using assms by (auto simp: dbBreaker_fire_def emit_def split: prod.splits)

lemma withRetry_from_fire:
  "withRetry_from rnd (dbBreaker_fire env q ps) m b a w = (r, w') \<Longrightarrow> a < m \<Longrightarrow>
   \<exists>es k. trace w' = trace w @ es \<and> published es = [] \<and> 1 \<le> k \<and> int k \<le> m - a \<and>
     fired es = replicate k (q, ps) \<and> length (delays es) = k - 1 \<and>
     (\<forall>v. r = Inr v \<longrightarrow> (\<exists>d d'. fire env q ps d = (Inr v, d')))"
proof (induction "nat (m - a)" arbitrary: a w rule: less_induct)
  case less
  note run = \<open>withRetry_from rnd (dbBreaker_fire env q ps) m b a w = (r, w')\<close> and am = \<open>a < m\<close>
  obtain r1 w1 where f: "dbBreaker_fire env q ps w = (r1, w1)" by (cases "dbBreaker_fire env q ps w")
  from dbBreaker_fire_step [OF f] obtain d' where tr1: "trace w1 = trace w @ [Fire q ps]"
    and fr: "fire env q ps (dep w) = (r1, d')" by blast
  show ?case
  proof (cases r1)
    case (Inr v)
    have "withRetry_from rnd (dbBreaker_fire env q ps) m b a w = (Inr v, w1)"
      by (rule withRetry_from_success) (rule am, use f Inr in simp)
    with run have rw: "r = Inr v" "w' = w1" by simp_all
    have "trace w' = trace w @ [Fire q ps] \<and> published [Fire q ps] = [] \<and> 1 \<le> (1::nat) \<and> int 1 \<le> m - a \<and>
     fired [Fire q ps] = replicate 1 (q, ps) \<and> length (delays [Fire q ps]) = 1 - 1 \<and>
     (\<forall>v. r = Inr v \<longrightarrow> (\<exists>d d'. fire env q ps d = (Inr v, d')))"
      using rw tr1 am fr Inr by auto
    then show ?thesis by blast
  next
    case (Inl e)
    show ?thesis
    proof (cases "a = m - 1 \<or> \<not> isRetryable e")
      case True
      have "withRetry_from rnd (dbBreaker_fire env q ps) m b a w = (Inl e, w1)"
        by (rule withRetry_from_stop) (rule am, use f Inl in simp, rule True)
      with run have rw: "r = Inl e" "w' = w1" by simp_all
      have "trace w' = trace w @ [Fire q ps] \<and> published [Fire q ps] = [] \<and> 1 \<le> (1::nat) \<and> int 1 \<le> m - a \<and>
       fired [Fire q ps] = replicate 1 (q, ps) \<and> length (delays [Fire q ps]) = 1 - 1 \<and>
       (\<forall>v. r = Inr v \<longrightarrow> (\<exists>d d'. fire env q ps d = (Inr v, d')))"
        using rw tr1 am by auto
      then show ?thesis by blast
    next
      case False
      then have notlast: "a \<noteq> m - 1" and retr: "isRetryable e" by simp_all
      define d where "d = fl (fl (b * 2 ^ nat a) + fl (rnd (ticks w1) * 1000))"
      define w3 where "w3 = emit (Sleep d) (emit (retryLog a m d e) w1)"
      have fe: "dbBreaker_fire env q ps w = (Inl e, w1)" using f Inl by simp
      have "withRetry_from rnd (dbBreaker_fire env q ps) m b a w =
            withRetry_from rnd (dbBreaker_fire env q ps) m b (a + 1) w3"
        unfolding w3_def
        by (rule withRetry_from_retry) (rule am, rule notlast, rule fe, rule retr, rule d_def)
      with run have run': "withRetry_from rnd (dbBreaker_fire env q ps) m b (a + 1) w3 = (r, w')"
        by simp
      have am': "a + 1 < m" using am notlast by simp
      have tr3: "trace w3 = trace w @ [Fire q ps, retryLog a m d e, Sleep d]"
        using tr1 by (simp add: w3_def emit_def)
      have "nat (m - (a + 1)) < nat (m - a)" using am by simp
      from less.hyps [OF this run' am'] obtain es k where
        es: "trace w' = trace w3 @ es" "published es = []" "1 \<le> k" "int k \<le> m - (a + 1)"
          "fired es = replicate k (q, ps)" "length (delays es) = k - 1"
          "\<forall>v. r = Inr v \<longrightarrow> (\<exists>d d'. fire env q ps d = (Inr v, d'))"
        by blast
      let ?es = "[Fire q ps, retryLog a m d e, Sleep d] @ es"
      have "trace w' = trace w @ ?es" using es(1) tr3 by simp
      moreover have "published ?es = []" using es(2) by (simp add: retryLog_def)
      moreover have "1 \<le> Suc k" by simp
      moreover have "int (Suc k) \<le> m - a" using es(4) by simp
      moreover have "fired ?es = replicate (Suc k) (q, ps)" using es(5) by (simp add: retryLog_def)
      moreover have "length (delays ?es) = Suc k - 1" using es(6) es(3) by (simp add: retryLog_def)
      ultimately show ?thesis using es(7) by blast
    qed
  qed
qed

lemma retried_trace:
  assumes "retried env q ps w = (r, w')"
  shows "\<exists>es k. trace w' = trace w @ es \<and> published es = [] \<and> 1 \<le> k \<and> k \<le> 3 \<and>
     fired es = replicate k (q, ps) \<and> length (delays es) = k - 1 \<and>
     (\<forall>v. r = Inr v \<longrightarrow> (\<exists>d d'. fire env q ps d = (Inr v, d')))"
proof -
  have "withRetry_from (random env) (dbBreaker_fire env q ps) 3 1000 0 w = (r, w')"
    using assms by (simp add: retried_def withRetry_def)
  from withRetry_from_fire [OF this] obtain es k where
    es: "trace w' = trace w @ es" "published es = []" "1 \<le> k" "int k \<le> 3 - 0"
          "fired es = replicate k (q, ps)" "length (delays es) = k - 1"
          "\<forall>v. r = Inr v \<longrightarrow> (\<exists>d d'. fire env q ps d = (Inr v, d'))"
    by auto
  have "k \<le> 3" using es(4) by simp
  then show ?thesis using es(1,2,3,5,6,7) by blast
qed

lemma mapRow_notes: "notes' (mapRow r) = description (mapRow r)"
  by (simp add: mapRow_def)

lemma mapFirstRow_Inr:
  "mapFirstRow result = Inr t \<Longrightarrow> \<exists>r. r \<in> set (rows result) \<and> t = mapRow r"
  by (cases "rows result") (auto simp: mapFirstRow_def)

lemma eventBus_publish_trace:
  "\<exists>lg. trace (eventBus_publish ev w) = trace w @ [Publish ev, lg] \<and> published [lg] = [] \<and>
     fired [lg] = [] \<and> dep (eventBus_publish ev w) = dep w"
  by (simp add: eventBus_publish_def emit_def)

lemma findById_cases:
  assumes "findById env i w = (r, w')"
  shows "\<exists>res. retried env sqlSelectById [PStr i] w = (res, w') \<and>
     ((\<exists>e. r = Inl e) \<or> r = Inr None \<or> (\<exists>x. r = Inr (Some (mapRow x))))"
  using assms
  by (cases "retried env sqlSelectById [PStr i] w")
     (auto simp: findById_def mapFirstRow_def split: sum.splits list.splits if_splits)

lemma findById_trace:
  assumes "findById env i w = (r, w')"
  shows "\<exists>es k. trace w' = trace w @ es \<and> published es = [] \<and> 1 \<le> k \<and> k \<le> 3 \<and>
     fired es = replicate k (sqlSelectById, [PStr i])"
proof -
  from findById_cases [OF assms] obtain res where "retried env sqlSelectById [PStr i] w = (res, w')"
    by blast
  from retried_trace [OF this] show ?thesis by blast
qed

lemma findById_notes:
  assumes "findById env i w = (Inr (Some t), w')"
  shows "notes' t = description t"
  using findById_cases [OF assms]
  by (auto simp: mapRow_notes)

lemma findAll_notes:
  assumes "findAll env st w = (Inr ts, w')"
  shows "\<forall>t \<in> set ts. notes' t = description t"
  using assms
  by (auto simp: findAll_def Let_def mapRow_notes split: sum.splits prod.splits)

lemma create_notes:
  assumes "create env input w = (Inr t, w')"
  shows "notes' t = description t"
  using assms
  by (auto simp: create_def Let_def mapRow_notes split: sum.splits prod.splits dest!: mapFirstRow_Inr)

lemma update_notes:
  assumes "update env i input w = (Inr (Some t), w')"
  shows "notes' t = description t"
  using assms
  by (auto simp: update_def Let_def mapRow_notes split: sum.splits prod.splits option.splits
      dest!: mapFirstRow_Inr)

lemma complete_notes:
  assumes "complete' env i w = (Inr (Some t), w')"
  shows "notes' t = description t"
  using assms
  by (auto simp: complete'_def Let_def mapRow_notes split: sum.splits prod.splits option.splits
      dest!: mapFirstRow_Inr)

lemma delete_notes:
  assumes "delete env i w = (Inr (Some t), w')"
  shows "notes' t = description t"
  using assms
  by (auto simp: delete_def Let_def split: sum.splits prod.splits option.splits
      dest!: findById_notes)

text \<open>
  C10. Every todo a service operation returns has its deprecated field \<open>notes\<close> equal
  to its \<open>description\<close>: the todos of \<open>findAll\<close>, and the todo of \<open>findById\<close>,
  \<open>create\<close>, \<open>update\<close>, \<open>complete\<close> and \<open>delete\<close>, whatever the persistence
  collaborator answers.
\<close>

theorem returned_todos_alias_notes:
  "(findAll env st w = (Inr ts, w1) \<longrightarrow> (\<forall>t \<in> set ts. notes' t = description t)) \<and>
   (findById env i w = (Inr (Some t2), w2) \<longrightarrow> notes' t2 = description t2) \<and>
   (create env cin w = (Inr t3, w3) \<longrightarrow> notes' t3 = description t3) \<and>
   (update env i uin w = (Inr (Some t4), w4) \<longrightarrow> notes' t4 = description t4) \<and>
   (complete' env i w = (Inr (Some t5), w5) \<longrightarrow> notes' t5 = description t5) \<and>
   (delete env i w = (Inr (Some t6), w6) \<longrightarrow> notes' t6 = description t6)"
proof (intro conjI impI)
  show "findAll env st w = (Inr ts, w1) \<Longrightarrow> \<forall>t \<in> set ts. notes' t = description t"
    by (rule findAll_notes)
  show "findById env i w = (Inr (Some t2), w2) \<Longrightarrow> notes' t2 = description t2"
    by (rule findById_notes)
  show "create env cin w = (Inr t3, w3) \<Longrightarrow> notes' t3 = description t3"
    by (rule create_notes)
  show "update env i uin w = (Inr (Some t4), w4) \<Longrightarrow> notes' t4 = description t4"
    by (rule update_notes)
  show "complete' env i w = (Inr (Some t5), w5) \<Longrightarrow> notes' t5 = description t5"
    by (rule complete_notes)
  show "delete env i w = (Inr (Some t6), w6) \<Longrightarrow> notes' t6 = description t6"
    by (rule delete_notes)
qed

lemmas sql_defs = sqlSelectAll_def sqlSelectByStatus_def sqlSelectById_def sqlInsert_def
  sqlUpdate_def sqlDelete_def sqlComplete_def

lemmas run_defs = retried_def withRetry_def withRetry_from_unfold dbBreaker_fire_def emit_def
  ticks_def mapFirstRow_def mapRow_def popt_def jopt_def eventBus_publish_def cloudEvent_def
  isRetryable_def retryLog_def

lemmas table_defs = table_env_def table_fire_def table1_def row1_def half_jitter_def clock0_def
  uuid0_def coalesce_def coalesce_opt_def

lemma findAll_table1:
  "findAll table_env None table1 =
     (Inr [mapRow row1], \<lparr>dep = [row1], trace = [Fire sqlSelectAll []]\<rparr>)"
  by (simp add: findAll_def truthy_def run_defs table_env_def table_fire_def table1_def
      half_jitter_def)

lemma findById_table1:
  "findById table_env ''1'' table1 =
     (Inr (Some (mapRow row1)), \<lparr>dep = [row1], trace = [Fire sqlSelectById [PStr ''1'']]\<rparr>)"
  by (simp add: findById_def run_defs table_defs sql_defs)

lemma findById_table1_missing:
  "findById table_env ''non-existent'' table1 =
     (Inr None, \<lparr>dep = [row1], trace = [Fire sqlSelectById [PStr ''non-existent'']]\<rparr>)"
  by (simp add: findById_def run_defs table_defs sql_defs)


lemma validate_short_title:
  assumes "length (c_title input) < 3"
  shows "\<exists>v. validateInput CreateTodoInputSchema input = Inl v \<and>
     \<lparr>fe_field = ''title'', fe_message = ''Title must be at least 3 characters''\<rparr> \<in> set (ve_fields v)"
  using assms
  by (simp add: validateInput_def CreateTodoInputSchema_def titleIssues_def Let_def)

text \<open>
  C6. For an input whose title is shorter than 3 characters \<open>createTodo\<close> returns the
  validation error, which has an entry for the field \<open>title\<close> with its message; the
  call writes its two log records and nothing else: no statement is handed to the
  persistence collaborator, whose state is unchanged, and no event is published.
\<close>

theorem createTodo_short_title:
  assumes "length (c_title input) < 3"
  shows "\<exists>v. createTodo env input context w =
           (Inr (Validation v),
            childLog context Warn ''Validation failed'' [(''errors'', fieldsJson (ve_fields v))]
              (childLog context Info ''Creating todo'' [(''input'', createInputJson input)] w)) \<and>
         \<lparr>fe_field = ''title'', fe_message = ''Title must be at least 3 characters''\<rparr>
           \<in> set (ve_fields v) \<and>
         fired (emitted w (snd (createTodo env input context w))) = [] \<and>
         published (emitted w (snd (createTodo env input context w))) = [] \<and>
         dep (snd (createTodo env input context w)) = dep w"
proof -
  from validate_short_title [OF assms] obtain v where
    v: "validateInput CreateTodoInputSchema input = Inl v"
       "\<lparr>fe_field = ''title'', fe_message = ''Title must be at least 3 characters''\<rparr> \<in> set (ve_fields v)"
    by blast
  have run: "createTodo env input context w =
           (Inr (Validation v),
            childLog context Warn ''Validation failed'' [(''errors'', fieldsJson (ve_fields v))]
              (childLog context Info ''Creating todo'' [(''input'', createInputJson input)] w))"
    by (simp add: createTodo_def Let_def v(1))
  have "fired (emitted w (snd (createTodo env input context w))) = []"
       "published (emitted w (snd (createTodo env input context w))) = []"
       "dep (snd (createTodo env input context w)) = dep w"
    unfolding run by (simp_all add: childLog_def emit_def emitted_def)
  with run v(2) show ?thesis by blast
qed

theorem createTodo_short_title_witness:
  "length (c_title short_title) < 3 \<and>
   fst (createTodo table_env short_title ctx0 table1) =
     Inr (Validation \<lparr>ve_typename = ''ValidationError'', ve_message = ''Input validation failed'',
                       ve_code = ''VALIDATION_ERROR'',
                       ve_fields = [\<lparr>fe_field = ''title'',
                                     fe_message = ''Title must be at least 3 characters''\<rparr>]\<rparr>) \<and>
   fired (emitted table1 (snd (createTodo table_env short_title ctx0 table1))) = []"
proof -
  have h: "length (c_title short_title) < 3" by (simp add: short_title_def)
  from createTodo_short_title [OF h, of table_env ctx0 table1]
  have "fired (emitted table1 (snd (createTodo table_env short_title ctx0 table1))) = []" by blast
  moreover have "fst (createTodo table_env short_title ctx0 table1) =
     Inr (Validation \<lparr>ve_typename = ''ValidationError'', ve_message = ''Input validation failed'',
                       ve_code = ''VALIDATION_ERROR'',
                       ve_fields = [\<lparr>fe_field = ''title'',
                                     fe_message = ''Title must be at least 3 characters''\<rparr>]\<rparr>)"
    by (simp add: createTodo_def Let_def validateInput_def CreateTodoInputSchema_def titleIssues_def
        descriptionIssues_def dueDateIssues_def short_title_def)
  ultimately show ?thesis using h by simp
qed

text \<open>
  C2, as the code has it. When the service call of \<open>createTodo\<close> or \<open>updateTodo\<close>
  fails, the error thrown to the caller has a fixed message and two extensions: the
  code \<open>INTERNAL_ERROR\<close> and, under \<open>originalError\<close>, the message of the underlying
  error. It has no correlation id; the correlation id goes to the error-level log record,
  with the message of the error (and, for \<open>createTodo\<close>, its stack).
\<close>

theorem technical_failure_carries_message:
  "(validateInput CreateTodoInputSchema cin = Inr cv \<and>
    create env cv (childLog context Info ''Creating todo'' [(''input'', createInputJson cin)] w)
      = (Inl err, w1) \<longrightarrow>
    createTodo env cin context w =
      (Inl \<lparr>gql_message = ''Failed to create todo'',
            extensions = [(''code'', JStr ''INTERNAL_ERROR''),
                          (''originalError'', JStr (message err))]\<rparr>,
       emit (Log Err ''Failed to create todo''
               [(''correlationId'', JStr (correlationId context)),
                (''error'', JStr (message err)), (''stack'', jopt (stack err))]) w1)) \<and>
   (validateInput UpdateTodoInputSchema uin = Inr uv \<and>
    update env i uv (childLog context Info ''Updating todo''
                       [(''todoId'', JStr i), (''input'', updateInputJson uin)] w)
      = (Inl err', w2) \<longrightarrow>
    updateTodo env i uin context w =
      (Inl \<lparr>gql_message = ''Failed to update todo'',
            extensions = [(''code'', JStr ''INTERNAL_ERROR''),
                          (''originalError'', JStr (message err'))]\<rparr>,
       emit (Log Err ''Failed to update todo''
               [(''correlationId'', JStr (correlationId context)),
                (''todoId'', JStr i), (''error'', JStr (message err'))]) w2))"
  by (simp add: createTodo_def updateTodo_def Let_def internalError_def childLog_def)

lemma create_broken:
  "create broken_env new_todo w = (Inl undefined_column, (emit (Fire sqlInsert
      [PStr (uuid0 (ticks w)), PStr ''New Todo'', PStr ''Test description'', PStr ''PENDING'',
       PUndefined, PStr (clock0 (ticks w)), PStr (clock0 (ticks w))]) w)\<lparr>dep := Suc (dep w)\<rparr>)"
  by (simp add: create_def Let_def retried_def withRetry_def withRetry_from_unfold
      dbBreaker_fire_def broken_env_def broken_fire_def isRetryable_def undefined_column_def
      new_todo_def popt_def)

lemma validate_new_todo: "validateInput CreateTodoInputSchema new_todo = Inr new_todo"
  by (simp add: validateInput_def CreateTodoInputSchema_def titleIssues_def
        descriptionIssues_def dueDateIssues_def new_todo_def Let_def)

text \<open>
  C2, as stated, fails: the collaborator rejects the \<open>INSERT\<close> with an internal error
  text, and the error thrown by \<open>createTodo\<close> carries that text under
  \<open>originalError\<close>, and no correlation id.
\<close>

theorem technical_failure_counterexample:
  "fst (createTodo broken_env new_todo ctx0 world0) =
     Inl \<lparr>gql_message = ''Failed to create todo'',
          extensions = [(''code'', JStr ''INTERNAL_ERROR''),
                        (''originalError'',
                         JStr ''column duedate of relation todos does not exist'')]\<rparr> \<and>
   message undefined_column = ''column duedate of relation todos does not exist''"
  by (simp add: createTodo_def Let_def validate_new_todo create_broken internalError_def
      undefined_column_def)


lemma sql_distinct:
  "sqlSelectById \<noteq> sqlUpdate" "sqlSelectById \<noteq> sqlDelete" "sqlSelectById \<noteq> sqlComplete"
  "sqlSelectById \<noteq> sqlInsert"
  by (simp_all add: sql_defs)

lemma findAll_cases:
  assumes "findAll env st w = (r, w')"
  shows "\<exists>q ps res. retried env q ps w = (res, w') \<and>
           (case res of Inl e \<Rightarrow> r = Inl e | Inr result \<Rightarrow> r = Inr (map mapRow (rows result)))"
proof -
  define q where "q = (if truthy st then sqlSelectByStatus else sqlSelectAll)"
  define ps where "ps = (if truthy st then [popt st] else [])"
  obtain res w1 where res: "retried env q ps w = (res, w1)" by (cases "retried env q ps w")
  have "findAll env st w =
     (case res of Inl e \<Rightarrow> (Inl e, w1) | Inr result \<Rightarrow> (Inr (map mapRow (rows result)), w1))"
    using res by (simp add: findAll_def Let_def q_def ps_def split: sum.splits)
  with assms have "w' = w1 \<and>
     (case res of Inl e \<Rightarrow> r = Inl e | Inr result \<Rightarrow> r = Inr (map mapRow (rows result)))"
    by (cases res) auto
  with res show ?thesis by blast
qed















lemma validate_update_Inr:
  "validateInput UpdateTodoInputSchema input = Inr validated \<Longrightarrow> validated = input"
  by (auto simp: validateInput_def UpdateTodoInputSchema_def Let_def split: sum.splits if_splits)

text \<open>
  C7, as the code has it. When the input passes validation and the existence read finds
  no row for the id, \<open>updateTodo\<close> returns the not-found object carrying that id; the
  only statements handed to the persistence collaborator are the existence read (once,
  or again after a retryable failure), which is not the \<open>UPDATE\<close>, and no event is
  published.
\<close>

theorem updateTodo_not_found:
  assumes "validateInput UpdateTodoInputSchema input = Inr validated"
    and "findById env i (childLog context Info ''Updating todo''
                           [(''todoId'', JStr i), (''input'', updateInputJson input)] w)
           = (Inr None, w1)"
  shows "updateTodo env i input context w = (Inr (NotFound (notFound i)), w1) \<and>
         nf_todoId (notFound i) = i \<and>
         published (emitted w w1) = [] \<and>
         (\<exists>k. 1 \<le> k \<and> k \<le> 3 \<and> fired (emitted w w1) = replicate k (sqlSelectById, [PStr i])) \<and>
         sqlSelectById \<noteq> sqlUpdate"
proof -
  let ?lg = "Log Info ''Updating todo'' ((''correlationId'', JStr (correlationId context)) #
               [(''todoId'', JStr i), (''input'', updateInputJson input)])"
  let ?w0 = "childLog context Info ''Updating todo''
                           [(''todoId'', JStr i), (''input'', updateInputJson input)] w"
  have run: "updateTodo env i input context w = (Inr (NotFound (notFound i)), w1)"
    using assms by (simp add: updateTodo_def Let_def update_def)
  from findById_trace [OF assms(2)] obtain es k where
    es: "trace w1 = trace ?w0 @ es" "published es = []" "1 \<le> k" "k \<le> 3"
        "fired es = replicate k (sqlSelectById, [PStr i])" by blast
  have "trace w1 = trace w @ (?lg # es)" using es(1) by (simp add: childLog_def emit_def)
  from emitted_append [OF this] have em: "emitted w w1 = ?lg # es" .
  have "published (emitted w w1) = []" "fired (emitted w w1) = replicate k (sqlSelectById, [PStr i])"
    using es(2,5) by (simp_all add: em)
  with run es(3,4) sql_distinct(1) show ?thesis by (auto simp: notFound_def)
qed

lemma validate_good_update: "validateInput UpdateTodoInputSchema good_update = Inr good_update"
  by (simp add: validateInput_def UpdateTodoInputSchema_def titleIssues_def
        descriptionIssues_def dueDateIssues_def statusIssues_def good_update_def Let_def)

lemma findById_missing:
  "findById table_env ''non-existent'' \<lparr>dep = [row1], trace = tr\<rparr> =
     (Inr None, \<lparr>dep = [row1], trace = tr @ [Fire sqlSelectById [PStr ''non-existent'']]\<rparr>)"
  by (simp add: findById_def run_defs table_defs sql_defs)

theorem updateTodo_not_found_witness:
  "validateInput UpdateTodoInputSchema good_update = Inr good_update \<and>
   fst (findById table_env ''non-existent''
          (childLog ctx0 Info ''Updating todo''
             [(''todoId'', JStr ''non-existent''), (''input'', updateInputJson good_update)] table1))
     = Inr None \<and>
   fst (updateTodo table_env ''non-existent'' good_update ctx0 table1)
     = Inr (NotFound (notFound ''non-existent'')) \<and>
   fired (emitted table1 (snd (updateTodo table_env ''non-existent'' good_update ctx0 table1)))
     = [(sqlSelectById, [PStr ''non-existent''])]"
proof -
  let ?w0 = "childLog ctx0 Info ''Updating todo''
             [(''todoId'', JStr ''non-existent''), (''input'', updateInputJson good_update)] table1"
  have f1: "fst (findById table_env ''non-existent'' ?w0) = Inr None"
    by (simp add: childLog_def emit_def table1_def findById_missing)
  then have f: "findById table_env ''non-existent'' ?w0 =
      (Inr None, snd (findById table_env ''non-existent'' ?w0))"
    by (simp add: prod_eq_iff)
  from updateTodo_not_found [OF validate_good_update f]
  have run: "updateTodo table_env ''non-existent'' good_update ctx0 table1 =
      (Inr (NotFound (notFound ''non-existent'')), snd (findById table_env ''non-existent'' ?w0))"
    by blast
  have "fired (emitted table1 (snd (findById table_env ''non-existent'' ?w0)))
     = [(sqlSelectById, [PStr ''non-existent''])]"
    by (simp add: childLog_def emit_def table1_def findById_missing emitted_def)
  then have "fired (emitted table1 (snd (updateTodo table_env ''non-existent'' good_update ctx0 table1)))
     = [(sqlSelectById, [PStr ''non-existent''])]"
    by (simp only: run snd_conv)
  moreover have "fst (updateTodo table_env ''non-existent'' good_update ctx0 table1)
     = Inr (NotFound (notFound ''non-existent''))"
    by (simp only: run fst_conv)
  ultimately show ?thesis using validate_good_update f1 by blast
qed

text \<open>
  C7, as stated, fails: for an id that no row has and an input whose title is too short,
  \<open>updateTodo\<close> returns the validation error, not the not-found object, and does not
  even perform the existence read.
\<close>

theorem updateTodo_not_found_counterexample:
  "fst (findById table_env ''non-existent'' table1) = Inr None \<and>
   fst (updateTodo table_env ''non-existent'' bad_update ctx0 table1) =
     Inr (Validation \<lparr>ve_typename = ''ValidationError'', ve_message = ''Input validation failed'',
                       ve_code = ''VALIDATION_ERROR'',
                       ve_fields = [\<lparr>fe_field = ''title'',
                                     fe_message = ''Title must be at least 3 characters''\<rparr>]\<rparr>) \<and>
   fst (updateTodo table_env ''non-existent'' bad_update ctx0 table1) \<noteq>
     Inr (NotFound (notFound ''non-existent'')) \<and>
   fired (emitted table1 (snd (updateTodo table_env ''non-existent'' bad_update ctx0 table1))) = []"
  by (simp add: findById_table1_missing updateTodo_def Let_def validateInput_def
      UpdateTodoInputSchema_def titleIssues_def descriptionIssues_def dueDateIssues_def
      statusIssues_def bad_update_def childLog_def emit_def emitted_def)

lemma retried_rejected:
  assumes "fire env q ps (dep w) = (Inl e, d')" and "\<not> isRetryable e"
  shows "retried env q ps w = (Inl e, (emit (Fire q ps) w)\<lparr>dep := d'\<rparr>)"
proof -
  have "dbBreaker_fire env q ps w = (Inl e, (emit (Fire q ps) w)\<lparr>dep := d'\<rparr>)"
    using assms(1) by (simp add: dbBreaker_fire_def)
  then have "withRetry_from (random env) (dbBreaker_fire env q ps) 3 1000 0 w =
      (Inl e, (emit (Fire q ps) w)\<lparr>dep := d'\<rparr>)"
    by (rule withRetry_from_stop [rotated]) (simp_all add: assms(2))
  then show ?thesis by (simp add: retried_def withRetry_def)
qed

text \<open>
  C8 does not hold of the code on the table of the repository. After the existence read
  has found the entity, \<open>complete\<close> sends the statement
  \<open>UPDATE todos SET status = 'COMPLETED', completedAt = $2, updatedAt = $2 ...\<close>. When
  the database rejects that statement with an error that the retry policy does not
  retry, \<open>complete\<close> throws that error after this one statement: it returns no entity
  and publishes no event. The table that \<open>initDatabase\<close> creates has the columns
  \<open>completed_at\<close> and \<open>updated_at\<close>, not \<open>completedAt\<close> and \<open>updatedAt\<close>, so there
  the statement is rejected for every existing entity.
\<close>

theorem complete_throws_when_update_rejected:
  assumes "findById env i w = (Inr (Some existing), w1)"
    and "fire env sqlComplete [PStr i, PStr (toISOString env (ticks w1))] (dep w1) = (Inl e, d')"
    and "\<not> isRetryable e"
  shows "fst (complete' env i w) = Inl e \<and>
         published (emitted w (snd (complete' env i w))) = [] \<and>
         fired (emitted w1 (snd (complete' env i w))) =
           [(sqlComplete, [PStr i, PStr (toISOString env (ticks w1))])]"
proof -
  let ?ps = "[PStr i, PStr (toISOString env (ticks w1))]"
  let ?w2 = "(emit (Fire sqlComplete ?ps) w1)\<lparr>dep := d'\<rparr>"
  have r: "retried env sqlComplete ?ps w1 = (Inl e, ?w2)"
    by (rule retried_rejected [OF assms(2,3)])
  have run: "complete' env i w = (Inl e, ?w2)"
    using assms(1) r by (simp add: complete'_def Let_def)
  from findById_trace [OF assms(1)] obtain es1 where
    es1: "trace w1 = trace w @ es1" "published es1 = []" by blast
  have t2: "trace ?w2 = trace w1 @ [Fire sqlComplete ?ps]" by (simp add: emit_def)
  then have "trace ?w2 = trace w @ (es1 @ [Fire sqlComplete ?ps])" using es1(1) by simp
  from emitted_append [OF this] have "published (emitted w ?w2) = []"
    using es1(2) by (simp add: published_append)
  moreover from emitted_append [OF t2] have "fired (emitted w1 ?w2) = [(sqlComplete, ?ps)]"
    by simp
  ultimately show ?thesis unfolding run by simp
qed

lemmas schema_defs = schema_env_def schema_fire_def named_columns_def todos_columns_def
  lower_def undefinedColumn_def table_fire_def table1_def row1_def half_jitter_def clock0_def
  uuid0_def

lemma findById_schema:
  "findById schema_env ''1'' table1 =
     (Inr (Some (mapRow row1)), \<lparr>dep = [row1], trace = [Fire sqlSelectById [PStr ''1'']]\<rparr>)"
  by (simp add: findById_def run_defs schema_defs sql_defs)

lemma sqlComplete_schema:
  "fire schema_env sqlComplete ps tbl = (Inl (undefinedColumn ''completedat''), tbl)"
  by (simp add: schema_defs sql_defs)

theorem complete_throws_when_update_rejected_witness:
  "findById schema_env ''1'' table1 =
     (Inr (Some (mapRow row1)), \<lparr>dep = [row1], trace = [Fire sqlSelectById [PStr ''1'']]\<rparr>) \<and>
   fire schema_env sqlComplete [PStr ''1'', PStr ''2025-11-14T10:00:00.000Z''] [row1] =
     (Inl (undefinedColumn ''completedat''), [row1]) \<and>
   \<not> isRetryable (undefinedColumn ''completedat'') \<and>
   fst (complete' schema_env ''1'' table1) = Inl (undefinedColumn ''completedat'') \<and>
   published (emitted table1 (snd (complete' schema_env ''1'' table1))) = [] \<and>
   fired (emitted table1 (snd (complete' schema_env ''1'' table1))) =
     [(sqlSelectById, [PStr ''1'']),
      (sqlComplete, [PStr ''1'', PStr ''2025-11-14T10:00:00.000Z''])]"
proof -
  let ?w1 = "\<lparr>dep = [row1], trace = [Fire sqlSelectById [PStr ''1'']]\<rparr> :: row list world"
  have f: "fire schema_env sqlComplete [PStr ''1'', PStr (toISOString schema_env (ticks ?w1))] (dep ?w1) =
     (Inl (undefinedColumn ''completedat''), [row1])"
    by (simp add: sqlComplete_schema)
  have n: "\<not> isRetryable (undefinedColumn ''completedat'')"
    by (simp add: isRetryable_def undefinedColumn_def)
  have c: "toISOString schema_env (ticks ?w1) = ''2025-11-14T10:00:00.000Z''"
    by (simp add: schema_env_def clock0_def)
  note t = complete_throws_when_update_rejected [OF findById_schema f n]
  have run: "complete' schema_env ''1'' table1 =
     (Inl (undefinedColumn ''completedat''),
      \<lparr>dep = [row1], trace = [Fire sqlSelectById [PStr ''1''],
         Fire sqlComplete [PStr ''1'', PStr ''2025-11-14T10:00:00.000Z'']]\<rparr>)"
    using findById_schema retried_rejected [OF f n] by (simp add: complete'_def Let_def c emit_def)
  have fd: "fired (emitted table1 (snd (complete' schema_env ''1'' table1))) =
     [(sqlSelectById, [PStr ''1'']),
      (sqlComplete, [PStr ''1'', PStr ''2025-11-14T10:00:00.000Z''])]"
    unfolding run by (simp add: emitted_def table1_def)
  from t fd n show ?thesis by (simp add: findById_schema sqlComplete_schema)
qed

lemma complete_table1:
  "\<exists>w'. complete' table_env ''1'' table1 =
     (Inr (Some \<lparr>todoId = ''1'', title = ''Test Todo'', description = Some ''Test description'',
                  status = ''COMPLETED'', dueDate = None, createdAt = ''2025-11-14T09:00:00.000Z'',
                  updatedAt = ''2025-11-14T10:00:00.000Z'',
                  completedAt = Some ''2025-11-14T10:00:00.000Z'',
                  notes' = Some ''Test description''\<rparr>), w')"
  by (simp add: complete'_def findById_def publishTodoCompleted_def run_defs table_defs sql_defs Let_def)

lemma publishTodoDeleted_trace:
  "\<exists>ev lg. trace (publishTodoDeleted env t w) = trace w @ [Publish ev, lg] \<and>
     published [lg] = [] \<and> fired [lg] = [] \<and>
     ce_type ev = ''todos.todo.deleted.v1'' \<and>
     ce_data ev = [(''todoId'', JStr (todoId t)), (''title'', JStr (title t))]"
  by (simp add: publishTodoDeleted_def eventBus_publish_def emit_def cloudEvent_def)

text \<open>
  C9. If the existence read of \<open>delete\<close> finds no row, \<open>delete\<close> returns \<open>null\<close>,
  having issued nothing but that read and published nothing. If it finds a row and the
  \<open>DELETE\<close> goes through, \<open>delete\<close> returns the todo of that read; after the read
  only the \<open>DELETE\<close> is issued (the row is not read again), and exactly one event is
  published, of type \<open>todos.todo.deleted.v1\<close>, carrying the id and the title of that
  todo.
\<close>

theorem delete_returns_snapshot:
  "(findById env i w = (Inr None, w1) \<longrightarrow>
      delete env i w = (Inr None, w1) \<and> published (emitted w w1) = [] \<and>
      (\<exists>k. fired (emitted w w1) = replicate k (sqlSelectById, [PStr i]))) \<and>
   (findById env i w = (Inr (Some t), w1) \<and> retried env sqlDelete [PStr i] w1 = (Inr res, w2) \<longrightarrow>
      delete env i w = (Inr (Some t), publishTodoDeleted env t w2) \<and>
      (\<exists>k. 1 \<le> k \<and> k \<le> 3 \<and>
           fired (emitted w1 (publishTodoDeleted env t w2)) = replicate k (sqlDelete, [PStr i])) \<and>
      (\<exists>ev. published (emitted w (publishTodoDeleted env t w2)) = [ev] \<and>
            ce_type ev = ''todos.todo.deleted.v1'' \<and>
            ce_data ev = [(''todoId'', JStr (todoId t)), (''title'', JStr (title t))])) \<and>
   sqlSelectById \<noteq> sqlDelete"
proof (intro conjI impI)
  assume f: "findById env i w = (Inr None, w1)"
  then show "delete env i w = (Inr None, w1)" by (simp add: delete_def)
  from findById_trace [OF f] obtain es k where
    es: "trace w1 = trace w @ es" "published es = []" "fired es = replicate k (sqlSelectById, [PStr i])"
    by blast
  from emitted_append [OF es(1)] es(2,3)
  show "published (emitted w w1) = []"
    "\<exists>k. fired (emitted w w1) = replicate k (sqlSelectById, [PStr i])"
    by auto
next
  assume a: "findById env i w = (Inr (Some t), w1) \<and> retried env sqlDelete [PStr i] w1 = (Inr res, w2)"
  then have f: "findById env i w = (Inr (Some t), w1)"
    and d: "retried env sqlDelete [PStr i] w1 = (Inr res, w2)" by simp_all
  show "delete env i w = (Inr (Some t), publishTodoDeleted env t w2)"
    using f d by (simp add: delete_def)
  from findById_trace [OF f] obtain es1 where
    es1: "trace w1 = trace w @ es1" "published es1 = []" by blast
  from retried_trace [OF d] obtain es2 k where
    es2: "trace w2 = trace w1 @ es2" "published es2 = []" "1 \<le> k" "k \<le> 3"
         "fired es2 = replicate k (sqlDelete, [PStr i])" by blast
  from publishTodoDeleted_trace [of env t w2] obtain ev lg where
    p: "trace (publishTodoDeleted env t w2) = trace w2 @ [Publish ev, lg]"
       "published [lg] = []" "fired [lg] = []"
       "ce_type ev = ''todos.todo.deleted.v1''"
       "ce_data ev = [(''todoId'', JStr (todoId t)), (''title'', JStr (title t))]"
    by blast
  have "trace (publishTodoDeleted env t w2) = trace w1 @ (es2 @ [Publish ev, lg])"
    using p(1) es2(1) by simp
  from emitted_append [OF this]
  have "fired (emitted w1 (publishTodoDeleted env t w2)) = replicate k (sqlDelete, [PStr i])"
    using es2(5) p(3) by (simp add: fired_append)
  with es2(3,4)
  show "\<exists>k. 1 \<le> k \<and> k \<le> 3 \<and>
           fired (emitted w1 (publishTodoDeleted env t w2)) = replicate k (sqlDelete, [PStr i])"
    by blast
  have "trace (publishTodoDeleted env t w2) = trace w @ (es1 @ es2 @ [Publish ev, lg])"
    using p(1) es2(1) es1(1) by simp
  from emitted_append [OF this]
  have "published (emitted w (publishTodoDeleted env t w2)) = [ev]"
    using es1(2) es2(2) p(2) by (simp add: published_append)
  with p(4,5)
  show "\<exists>ev. published (emitted w (publishTodoDeleted env t w2)) = [ev] \<and>
            ce_type ev = ''todos.todo.deleted.v1'' \<and>
            ce_data ev = [(''todoId'', JStr (todoId t)), (''title'', JStr (title t))]"
    by blast
next
  show "sqlSelectById \<noteq> sqlDelete" by (rule sql_distinct(2))
qed

lemma retried_delete_table1:
  "retried table_env sqlDelete [PStr ''1''] \<lparr>dep = [row1], trace = tr\<rparr> =
     (Inr \<lparr>rows = []\<rparr>, \<lparr>dep = [], trace = tr @ [Fire sqlDelete [PStr ''1'']]\<rparr>)"
  by (simp add: run_defs table_defs sql_defs)

lemma delete_table1:
  "fst (delete table_env ''1'' table1) = Inr (Some (mapRow row1))"
  by (simp add: delete_def findById_table1 retried_delete_table1)

theorem delete_returns_snapshot_witness:
  "fst (findById table_env ''non-existent'' table1) = Inr None \<and>
   fst (delete table_env ''non-existent'' table1) = Inr None \<and>
   fired (emitted table1 (snd (delete table_env ''non-existent'' table1))) =
     [(sqlSelectById, [PStr ''non-existent''])] \<and>
   fst (findById table_env ''1'' table1) = Inr (Some (mapRow row1)) \<and>
   fst (retried table_env sqlDelete [PStr ''1''] (snd (findById table_env ''1'' table1)))
     = Inr \<lparr>rows = []\<rparr> \<and>
   fst (delete table_env ''1'' table1) = Inr (Some (mapRow row1)) \<and>
   fired (emitted table1 (snd (delete table_env ''1'' table1))) =
     [(sqlSelectById, [PStr ''1'']), (sqlDelete, [PStr ''1''])] \<and>
   length (published (emitted table1 (snd (delete table_env ''1'' table1)))) = 1"
proof -
  let ?w1 = "\<lparr>dep = [row1], trace = [Fire sqlSelectById [PStr ''non-existent'']]\<rparr>"
  let ?v1 = "\<lparr>dep = [row1], trace = [Fire sqlSelectById [PStr ''1'']]\<rparr>"
  let ?v2 = "\<lparr>dep = [] :: row list, trace = [Fire sqlSelectById [PStr ''1''], Fire sqlDelete [PStr ''1'']]\<rparr>"
  have d: "retried table_env sqlDelete [PStr ''1''] ?v1 = (Inr \<lparr>rows = []\<rparr>, ?v2)"
    by (simp add: retried_delete_table1)
  note t = delete_returns_snapshot [of table_env "''non-existent''" table1 ?w1]
  note u = delete_returns_snapshot [of table_env "''1''" table1 ?v1 "mapRow row1"
      "\<lparr>rows = []\<rparr>" ?v2]
  from t findById_table1_missing have a: "delete table_env ''non-existent'' table1 = (Inr None, ?w1)"
    by blast
  from u findById_table1 d have b: "delete table_env ''1'' table1 =
      (Inr (Some (mapRow row1)), publishTodoDeleted table_env (mapRow row1) ?v2)"
    and c: "\<exists>ev. published (emitted table1 (publishTodoDeleted table_env (mapRow row1) ?v2)) = [ev]"
    by blast+
  have e: "fired (emitted table1 (publishTodoDeleted table_env (mapRow row1) ?v2)) =
     [(sqlSelectById, [PStr ''1'']), (sqlDelete, [PStr ''1''])]"
    by (simp add: publishTodoDeleted_def eventBus_publish_def emit_def emitted_def table1_def)
  have f: "fired (emitted table1 ?w1) = [(sqlSelectById, [PStr ''non-existent''])]"
    by (simp add: emitted_def table1_def)
  from c obtain ev where "published (emitted table1 (publishTodoDeleted table_env (mapRow row1) ?v2)) = [ev]"
    by blast
  then have g: "length (published (emitted table1 (snd (delete table_env ''1'' table1)))) = 1"
    by (simp add: b)
  show ?thesis
    using a b e f g by (simp add: findById_table1_missing findById_table1 d)
qed

lemma create_table1: "\<exists>t w'. create table_env new_todo table1 = (Inr t, w')"
  by (simp add: create_def publishTodoCreated_def run_defs table_defs sql_defs Let_def new_todo_def)

lemma update_table1: "\<exists>t w'. update table_env ''1'' good_update table1 = (Inr (Some t), w')"
  by (simp add: update_def findById_def publishTodoUpdated_def run_defs table_defs sql_defs Let_def
      good_update_def)

lemma delete_table1_ex: "\<exists>t w'. delete table_env ''1'' table1 = (Inr (Some t), w')"
  by (simp add: delete_def findById_table1 retried_delete_table1)

theorem returned_todos_alias_notes_witness:
  "(\<exists>t. fst (findAll table_env None table1) = Inr [t] \<and> notes' t = description t) \<and>
   (\<exists>t. fst (findById table_env ''1'' table1) = Inr (Some t) \<and> notes' t = description t) \<and>
   (\<exists>t. fst (create table_env new_todo table1) = Inr t \<and> notes' t = description t) \<and>
   (\<exists>t. fst (update table_env ''1'' good_update table1) = Inr (Some t) \<and> notes' t = description t) \<and>
   (\<exists>t. fst (complete' table_env ''1'' table1) = Inr (Some t) \<and> notes' t = description t) \<and>
   (\<exists>t. fst (delete table_env ''1'' table1) = Inr (Some t) \<and> notes' t = description t)"
proof -
  obtain w1 where r1: "findAll table_env None table1 = (Inr [mapRow row1], w1)"
    using findAll_table1 by blast
  obtain w2 where r2: "findById table_env ''1'' table1 = (Inr (Some (mapRow row1)), w2)"
    using findById_table1 by blast
  obtain t3 w3 where r3: "create table_env new_todo table1 = (Inr t3, w3)"
    using create_table1 by blast
  obtain t4 w4 where r4: "update table_env ''1'' good_update table1 = (Inr (Some t4), w4)"
    using update_table1 by blast
  obtain t5 w5 where r5: "complete' table_env ''1'' table1 = (Inr (Some t5), w5)"
    using complete_table1 by blast
  obtain t6 w6 where r6: "delete table_env ''1'' table1 = (Inr (Some t6), w6)"
    using delete_table1_ex by blast
  from returned_todos_alias_notes [where env = table_env and st = None and w = table1
      and ts = "[mapRow row1]" and ?w1.0 = w1 and i = "''1''" and ?t2.0 = "mapRow row1" and ?w2.0 = w2
      and cin = new_todo and ?t3.0 = t3 and ?w3.0 = w3 and uin = good_update and ?t4.0 = t4
      and ?w4.0 = w4 and ?t5.0 = t5 and ?w5.0 = w5 and ?t6.0 = t6 and ?w6.0 = w6]
  have "notes' (mapRow row1) = description (mapRow row1)" "notes' t3 = description t3"
    "notes' t4 = description t4" "notes' t5 = description t5" "notes' t6 = description t6"
    using r1 r2 r3 r4 r5 r6 by simp_all
  then show ?thesis using r1 r2 r3 r4 r5 r6 by simp
qed

lemma update_broken:
  "fst (update broken_env ''1'' good_update w) = Inl undefined_column"
  by (simp add: update_def findById_def retried_def withRetry_def withRetry_from_unfold
      dbBreaker_fire_def broken_env_def broken_fire_def isRetryable_def undefined_column_def)

theorem technical_failure_carries_message_witness:
  "validateInput CreateTodoInputSchema new_todo = Inr new_todo \<and>
   fst (create broken_env new_todo
          (childLog ctx0 Info ''Creating todo'' [(''input'', createInputJson new_todo)] world0))
     = Inl undefined_column \<and>
   fst (createTodo broken_env new_todo ctx0 world0) =
     Inl \<lparr>gql_message = ''Failed to create todo'',
          extensions = [(''code'', JStr ''INTERNAL_ERROR''),
                        (''originalError'', JStr (message undefined_column))]\<rparr> \<and>
   validateInput UpdateTodoInputSchema good_update = Inr good_update \<and>
   fst (update broken_env ''1'' good_update
          (childLog ctx0 Info ''Updating todo''
             [(''todoId'', JStr ''1''), (''input'', updateInputJson good_update)] world0))
     = Inl undefined_column \<and>
   fst (updateTodo broken_env ''1'' good_update ctx0 world0) =
     Inl \<lparr>gql_message = ''Failed to update todo'',
          extensions = [(''code'', JStr ''INTERNAL_ERROR''),
                        (''originalError'', JStr (message undefined_column))]\<rparr>"
proof -
  let ?c0 = "childLog ctx0 Info ''Creating todo'' [(''input'', createInputJson new_todo)] world0"
  let ?u0 = "childLog ctx0 Info ''Updating todo''
             [(''todoId'', JStr ''1''), (''input'', updateInputJson good_update)] world0"
  have c: "create broken_env new_todo ?c0 = (Inl undefined_column, snd (create broken_env new_todo ?c0))"
    by (simp add: create_broken)
  have u: "update broken_env ''1'' good_update ?u0 =
      (Inl undefined_column, snd (update broken_env ''1'' good_update ?u0))"
    using update_broken [of ?u0] by (simp add: prod_eq_iff)
  note t = technical_failure_carries_message [of new_todo new_todo broken_env ctx0 world0
      undefined_column "snd (create broken_env new_todo ?c0)" good_update good_update "''1''"
      undefined_column "snd (update broken_env ''1'' good_update ?u0)"]
  from t validate_new_todo c have
    "fst (createTodo broken_env new_todo ctx0 world0) =
     Inl \<lparr>gql_message = ''Failed to create todo'',
          extensions = [(''code'', JStr ''INTERNAL_ERROR''),
                        (''originalError'', JStr (message undefined_column))]\<rparr>"
    by simp
  moreover from t validate_good_update u have
    "fst (updateTodo broken_env ''1'' good_update ctx0 world0) =
     Inl \<lparr>gql_message = ''Failed to update todo'',
          extensions = [(''code'', JStr ''INTERNAL_ERROR''),
                        (''originalError'', JStr (message undefined_column))]\<rparr>"
    by simp
  ultimately show ?thesis
    using validate_new_todo validate_good_update update_broken [of ?u0] by (simp add: create_broken)
qed

end
